theory Spec2Isabelle
  imports Main
begin

section \<open>JavaScript values\<close>

text \<open>
  The client stores and forwards whatever values its caller hands over, and it tests
  them with JavaScript's truthiness (\<^verbatim>\<open>if (err)\<close>, \<^verbatim>\<open>if (requestJson)\<close>) and
  with \<^verbatim>\<open>typeof\<close>. Values are therefore modelled as the JSON-shaped universe below.
  Numbers are integers plus \<^verbatim>\<open>NaN\<close>; no operation of the client does arithmetic.
\<close>

datatype jsval =
    JUndefined
  | JNull
  | JBool bool
  | JNum int
  | JNaN
  | JStr string
  | JArr "jsval list"
  | JObj "(string \<times> jsval) list"

text \<open>ToBoolean of the language: the falsy values are exactly the six listed.\<close>

fun truthy :: "jsval \<Rightarrow> bool" where
  "truthy JUndefined = False"
| "truthy JNull = False"
| "truthy (JBool b) = b"
| "truthy (JNum n) = (n \<noteq> 0)"
| "truthy JNaN = False"
| "truthy (JStr s) = (s \<noteq> [])"
| "truthy (JArr xs) = True"
| "truthy (JObj kvs) = True"

fun typeof :: "jsval \<Rightarrow> string" where
  "typeof JUndefined = ''undefined''"
| "typeof JNull = ''object''"
| "typeof (JBool b) = ''boolean''"
| "typeof (JNum n) = ''number''"
| "typeof JNaN = ''number''"
| "typeof (JStr s) = ''string''"
| "typeof (JArr xs) = ''object''"
| "typeof (JObj kvs) = ''object''"

section \<open>Result codes and responses\<close>

text \<open>
  Modelled from the spec: \<^verbatim>\<open>sendResultEnum\<close> (\<^verbatim>\<open>src/sendResultEnum.js\<close> is
  required by the client but is not among the source files). The spec's section on error
  handling gives the closed enumeration, in this order.
\<close>

datatype sendResultEnum =
    Success
  | Warning
  | InvalidServerId
  | InvalidApiKey
  | InvalidAuthentication
  | AccountDisabled
  | EmailAddressValidationFailed
  | RecipientValidationFailed
  | MessageValidationFailed
  | AttachmentValidationFailed
  | TooManyRecipients
  | ServerValidationFailed
  | InternalError
  | UnknownError

definition sendResultEnum_values :: "sendResultEnum list" where
  "sendResultEnum_values =
     [Success, Warning, InvalidServerId, InvalidApiKey, InvalidAuthentication,
      AccountDisabled, EmailAddressValidationFailed, RecipientValidationFailed,
      MessageValidationFailed, AttachmentValidationFailed, TooManyRecipients,
      ServerValidationFailed, InternalError, UnknownError]"

text \<open>
  Modelled from the spec: \<^verbatim>\<open>sendResponse\<close> (\<^verbatim>\<open>src/sendResponse.js\<close> is not among
  the source files). The spec gives it a result code, an optional message and, on
  success, a transaction receipt and the per-recipient results. The client builds one
  with \<^verbatim>\<open>new sendResponse({result: ...})\<close> and then assigns \<^verbatim>\<open>responseMessage\<close>.
\<close>

record sendResponse =
  result :: sendResultEnum
  responseMessage :: "string option"
  transactionReceipt :: "string option"
  messageResults :: "jsval list"

definition new_sendResponse :: "sendResultEnum \<Rightarrow> sendResponse" where
  "new_sendResponse code =
     \<lparr>result = code, responseMessage = None, transactionReceipt = None, messageResults = []\<rparr>"

section \<open>The client object and its constructor\<close>

record client =
  serverId :: jsval
  apiKey :: jsval
  userAgent :: string
  endpointUrl :: jsval

text \<open>
  \<^verbatim>\<open>constructor(serverId, apiKey, {endpointUrl = null, optionalProxy = null} = {})\<close>.
  The package version (read from \<^verbatim>\<open>package.json\<close>) and the runtime's
  \<^verbatim>\<open>process.version\<close> are parameters. The user agent is the template literal
  \<^verbatim>\<open>SocketLabs-node/${version} (nodejs ${process.version})\<close>.
\<close>

definition SocketLabsClient ::
  "string \<Rightarrow> string \<Rightarrow> jsval \<Rightarrow> jsval \<Rightarrow> jsval \<Rightarrow> jsval \<Rightarrow> client" where
  "SocketLabsClient version process_version serverId' apiKey' endpointUrl' optionalProxy' =
     \<lparr>serverId = serverId',
      apiKey = apiKey',
      userAgent = ''SocketLabs-node/'' @ version @ '' (nodejs '' @ process_version @ '')'',
      endpointUrl =
        (if truthy endpointUrl' \<and> endpointUrl' \<noteq> JStr ''''
         then endpointUrl'
         else JStr ''https://inject.socketlabs.com/api/v1/email'')\<rparr>"

text \<open>
  The only other thing the constructor does is to call \<^verbatim>\<open>request.defaults\<close> when a
  proxy string is given; the list below holds the argument of each such call.
\<close>

definition SocketLabsClient_defaults :: "jsval \<Rightarrow> jsval list" where
  "SocketLabsClient_defaults optionalProxy' =
     (if truthy optionalProxy' \<and> typeof optionalProxy' = ''string''
      then [JObj [(''proxy'', optionalProxy')]]
      else [])"

section \<open>The send operation\<close>

text \<open>
  \<^verbatim>\<open>send\<close> talks to four collaborators that are not part of the client: the
  credential validator, the request factory (which returns a promise), the HTTP layer
  (which takes a callback) and the response parser. They are parameters of the model.
  The factory's promise is fulfilled, rejected, or left pending; the HTTP layer calls
  back once with \<^verbatim>\<open>(err, res, body)\<close>, or never. Collaborators are assumed not to
  throw.
\<close>

datatype 'e factory_outcome =
    Fulfilled jsval
  | RejectedWith 'e
  | Pending

record post_options =
  body :: jsval
  headers :: "(string \<times> string) list"
  json :: bool
  url :: jsval

record ('m, 'e) collaborators =
  validator_validateCredentials :: "jsval \<Rightarrow> jsval \<Rightarrow> sendResponse"
  factory_generateRequest :: "'m \<Rightarrow> 'e factory_outcome"
  request_post :: "post_options \<Rightarrow> (jsval \<times> jsval \<times> jsval) option"
  sendResponse_parse :: "jsval \<Rightarrow> sendResponse"

text \<open>
  What the promise's \<^verbatim>\<open>resolve\<close> and \<^verbatim>\<open>reject\<close> are called with: a response
  object, or whatever the factory rejected with.
\<close>

datatype 'e outcome_value =
    Response sendResponse
  | FactoryError 'e

text \<open>
  The observable behaviour of one call is the sequence of calls it makes, in order:
  to the collaborators and to the promise's \<^verbatim>\<open>resolve\<close> and \<^verbatim>\<open>reject\<close>.
\<close>

datatype ('m, 'e) effect =
    ValidateCredentials jsval jsval
  | GenerateRequest 'm
  | Post post_options
  | Parse jsval
  | Resolve "'e outcome_value"
  | Reject "'e outcome_value"

text \<open>
  The callback given to \<^verbatim>\<open>request.post\<close> (lines 122 to 142). The error branch ends
  with \<^verbatim>\<open>reject(result)\<close> and has no \<^verbatim>\<open>return\<close>: control falls through to the
  parsing of \<^verbatim>\<open>res\<close> and to a second call of \<^verbatim>\<open>resolve\<close> or \<^verbatim>\<open>reject\<close>.
\<close>

definition post_callback ::
  "(jsval \<Rightarrow> sendResponse) \<Rightarrow> jsval \<Rightarrow> jsval \<Rightarrow> jsval \<Rightarrow> ('m, 'e) effect list" where
  "post_callback parse err res body' =
     (if truthy err then
        (let r = new_sendResponse UnknownError;
             r = (if typeof err = ''string''
                  then (case err of JStr s \<Rightarrow> r\<lparr>responseMessage := Some s\<rparr> | _ \<Rightarrow> r)
                  else r)
         in [Reject (Response r)])
      else []) @
     (let response = parse res
      in [Parse res,
          if result response = Success
          then Resolve (Response response)
          else Reject (Response response)])"

text \<open>
  \<^verbatim>\<open>send(messageData)\<close>: the executor of the returned promise. The model returns the
  client object after the call together with the calls made.
\<close>

definition send ::
  "('m, 'e) collaborators \<Rightarrow> client \<Rightarrow> 'm \<Rightarrow> client \<times> ('m, 'e) effect list" where
  "send env this messageData =
     (let r = validator_validateCredentials env (serverId this) (apiKey this) in
      if result r \<noteq> Success then
        (this, [ValidateCredentials (serverId this) (apiKey this), Reject (Response r)])
      else
        (this,
         [ValidateCredentials (serverId this) (apiKey this), GenerateRequest messageData] @
         (case factory_generateRequest env messageData of
            Fulfilled requestJson \<Rightarrow>
              if truthy requestJson then
                (let postBody = JObj [(''serverId'', serverId this),
                                      (''apiKey'', apiKey this),
                                      (''messages'', JArr [requestJson])];
                     options = \<lparr>body = postBody,
                                headers = [(''User-Agent'', userAgent this)],
                                json = True,
                                url = endpointUrl this\<rparr>
                 in Post options #
                    (case request_post env options of
                       Some (err, res, body') \<Rightarrow>
                         post_callback (sendResponse_parse env) err res body'
                     | None \<Rightarrow> []))
              else []
          | RejectedWith errorResult \<Rightarrow> [Reject (FactoryError errorResult)]
          | Pending \<Rightarrow> [])))"

text \<open>
  A promise keeps the first call of \<^verbatim>\<open>resolve\<close> or \<^verbatim>\<open>reject\<close> and ignores every
  later one; with no such call it stays pending (\<open>None\<close>).
\<close>

datatype 'e settlement =
    Resolved "'e outcome_value"
  | Rejected "'e outcome_value"

fun settle :: "('m, 'e) effect list \<Rightarrow> 'e settlement option" where
  "settle [] = None"
| "settle (Resolve v # es) = Some (Resolved v)"
| "settle (Reject v # es) = Some (Rejected v)"
| "settle (e # es) = settle es"

text \<open>How often the promise's two functions are called, and what the parser is given.\<close>

fun is_settling :: "('m, 'e) effect \<Rightarrow> bool" where
  "is_settling (Resolve v) = True"
| "is_settling (Reject v) = True"
| "is_settling e = False"

fun parsed :: "('m, 'e) effect list \<Rightarrow> jsval list" where
  "parsed [] = []"
| "parsed (Parse res # es) = res # parsed es"
| "parsed (e # es) = parsed es"

fun posted :: "('m, 'e) effect list \<Rightarrow> post_options list" where
  "posted [] = []"
| "posted (Post options # es) = options # posted es"
| "posted (e # es) = posted es"

fun generated :: "('m, 'e) effect list \<Rightarrow> 'm list" where
  "generated [] = []"
| "generated (GenerateRequest m # es) = m # generated es"
| "generated (e # es) = generated es"

text \<open>
  The options object of the call of \<^verbatim>\<open>request.post\<close> (lines 108 to 121), for
  stating what is posted.
\<close>

definition request_options :: "client \<Rightarrow> jsval \<Rightarrow> post_options" where
  "request_options this requestJson =
     \<lparr>body = JObj [(''serverId'', serverId this),
                   (''apiKey'', apiKey this),
                   (''messages'', JArr [requestJson])],
      headers = [(''User-Agent'', userAgent this)],
      json = True,
      url = endpointUrl this\<rparr>"

section \<open>The credential validator\<close>

text \<open>
  Modelled from the spec: \<^verbatim>\<open>sendValidator.validateCredentials\<close>
  (\<^verbatim>\<open>src/core/sendValidator.js\<close> is not among the source files). The spec: it
  "fails with InvalidServerId when serverId is missing, non-numeric, or \<open>\<le> 0\<close>; fails with
  InvalidApiKey when apiKey is missing or empty; otherwise succeeds". A value is missing
  when it is \<^verbatim>\<open>undefined\<close> or \<^verbatim>\<open>null\<close>, and numeric when it is a number other
  than \<^verbatim>\<open>NaN\<close>.
\<close>

definition missing :: "jsval \<Rightarrow> bool" where
  "missing v = (v = JUndefined \<or> v = JNull)"

fun numeric :: "jsval \<Rightarrow> bool" where
  "numeric (JNum n) = True"
| "numeric v = False"

fun non_positive :: "jsval \<Rightarrow> bool" where
  "non_positive (JNum n) = (n \<le> 0)"
| "non_positive v = False"

definition validateCredentials :: "jsval \<Rightarrow> jsval \<Rightarrow> sendResponse" where
  "validateCredentials serverId' apiKey' =
     (if missing serverId' \<or> \<not> numeric serverId' \<or> non_positive serverId'
      then new_sendResponse InvalidServerId
      else if missing apiKey' \<or> apiKey' = JStr []
      then new_sendResponse InvalidApiKey
      else new_sendResponse Success)"

section \<open>The message model\<close>

text \<open>
  Modelled from the spec: the message classes (\<^verbatim>\<open>src/message/messageClasses.js\<close> is
  not among the source files), after the spec's data model. An optional field is an
  \<open>option\<close>. A bulk recipient is "an EmailAddress plus an ordered sequence of
  MergeData". The two message shapes share every field but the recipients' type and
  the last ones: carbon copies for a basic message, global merge data for a bulk one.
\<close>

record EmailAddress =
  emailAddress :: string
  friendlyName :: "string option"

record CustomHeader =
  headerName :: string
  headerValue :: string

record MergeData =
  mergeField :: string
  mergeValue :: string

datatype attachment_source =
    RawBytes "char list"
  | FilePath string

record Attachment =
  attachmentName :: "string option"
  mimeType :: "string option"
  content :: "attachment_source option"

record BulkRecipient = EmailAddress +
  mergeData :: "MergeData list"

record 'r message =
  subject :: "string option"
  from' :: "EmailAddress option"
  replyTo :: "EmailAddress option"
  to :: "'r list"
  textBody :: "string option"
  htmlBody :: "string option"
  apiTemplate :: "nat option"
  customHeaders :: "CustomHeader list"
  attachments :: "Attachment list"
  mailingId :: "string option"
  messageId :: "string option"
  charSet :: "string option"

record BasicMessage = "EmailAddress message" +
  cc :: "EmailAddress list"
  bcc :: "EmailAddress list"

record BulkMessage = "BulkRecipient message" +
  globalMergeData :: "MergeData list"

text \<open>The discriminator \<^verbatim>\<open>messageType\<close> (\<^verbatim>\<open>basic\<close> or \<^verbatim>\<open>bulk\<close>).\<close>

datatype messageData =
    Basic BasicMessage
  | Bulk BulkMessage

section \<open>The message validator\<close>

text \<open>
  Modelled from the spec: \<^verbatim>\<open>sendValidator.validateMessage\<close>
  (\<^verbatim>\<open>src/core/sendValidator.js\<close> is not among the source files). The spec:
  "For both shapes: fails with EmailAddressValidationFailed if From is absent/malformed;
  fails with RecipientValidationFailed if the recipient list is empty, any entry is
  malformed, or the count exceeds the maximum allowed; fails with MessageValidationFailed
  if Subject is empty or both body fields are empty; fails with
  AttachmentValidationFailed if an attachment entry is missing a name or content.
  [...] Validation short-circuits on first failure". The spec names four checks and says
  that the first failure is the result, but not in which order the checks run: the order
  is a parameter, as are what a well-formed address looks like and the largest number of
  recipients ("a configurable upper bound").
\<close>

datatype check =
    FromCheck
  | RecipientCheck
  | MessageCheck
  | AttachmentCheck

record validator_config =
  maxRecipients :: nat
  wellFormed :: "string \<Rightarrow> bool"
  checkOrder :: "check list"

text \<open>A configuration that leaves no check out.\<close>

definition runs_every_check :: "validator_config \<Rightarrow> bool" where
  "runs_every_check cfg =
     (FromCheck \<in> set (checkOrder cfg) \<and> RecipientCheck \<in> set (checkOrder cfg) \<and>
      MessageCheck \<in> set (checkOrder cfg) \<and> AttachmentCheck \<in> set (checkOrder cfg))"

definition empty_text :: "string option \<Rightarrow> bool" where
  "empty_text t = (case t of None \<Rightarrow> True | Some s \<Rightarrow> s = [])"

definition malformed :: "validator_config \<Rightarrow> 'z EmailAddress_scheme \<Rightarrow> bool" where
  "malformed cfg a = (\<not> wellFormed cfg (emailAddress a))"

definition invalid_from :: "validator_config \<Rightarrow> EmailAddress option \<Rightarrow> bool" where
  "invalid_from cfg f = (case f of None \<Rightarrow> True | Some a \<Rightarrow> malformed cfg a)"

definition invalid_recipients ::
  "validator_config \<Rightarrow> 'z EmailAddress_scheme list \<Rightarrow> bool" where
  "invalid_recipients cfg rs =
     (rs = [] \<or> list_ex (malformed cfg) rs \<or> maxRecipients cfg < length rs)"

definition invalid_attachment :: "Attachment \<Rightarrow> bool" where
  "invalid_attachment a = (empty_text (attachmentName a) \<or> content a = None)"

text \<open>When each of the four checks fails, and the result code of its failure.\<close>

definition check_fails ::
  "validator_config \<Rightarrow> ('z EmailAddress_scheme, 'w) message_scheme \<Rightarrow> check \<Rightarrow> bool" where
  "check_fails cfg m c =
     (case c of
        FromCheck \<Rightarrow> invalid_from cfg (from' m)
      | RecipientCheck \<Rightarrow> invalid_recipients cfg (to m)
      | MessageCheck \<Rightarrow>
          empty_text (subject m) \<or> (empty_text (textBody m) \<and> empty_text (htmlBody m))
      | AttachmentCheck \<Rightarrow> list_ex invalid_attachment (attachments m))"

fun failure_code :: "check \<Rightarrow> sendResultEnum" where
  "failure_code FromCheck = EmailAddressValidationFailed"
| "failure_code RecipientCheck = RecipientValidationFailed"
| "failure_code MessageCheck = MessageValidationFailed"
| "failure_code AttachmentCheck = AttachmentValidationFailed"

text \<open>The checks run in the configured order, and the first one that fails decides.\<close>

definition validate_shape ::
  "validator_config \<Rightarrow> ('z EmailAddress_scheme, 'w) message_scheme \<Rightarrow> sendResponse" where
  "validate_shape cfg m =
     (case find (check_fails cfg m) (checkOrder cfg) of
        None \<Rightarrow> new_sendResponse Success
      | Some c \<Rightarrow> new_sendResponse (failure_code c))"

definition validateMessage :: "validator_config \<Rightarrow> messageData \<Rightarrow> sendResponse" where
  "validateMessage cfg messageData =
     (case messageData of
        Basic m \<Rightarrow> validate_shape cfg m
      | Bulk m \<Rightarrow> validate_shape cfg m)"

text \<open>Fields that both shapes have, read through the discriminator.\<close>

definition recipients :: "messageData \<Rightarrow> EmailAddress list" where
  "recipients messageData =
     (case messageData of
        Basic m \<Rightarrow> to m
      | Bulk m \<Rightarrow> map EmailAddress.truncate (to m))"

definition subject_of :: "messageData \<Rightarrow> string option" where
  "subject_of messageData =
     (case messageData of Basic m \<Rightarrow> subject m | Bulk m \<Rightarrow> subject m)"

section \<open>The request factory\<close>

text \<open>
  Modelled from the spec: \<^verbatim>\<open>injectionRequestFactory.generateRequest\<close>
  (\<^verbatim>\<open>src/core/injectionRequestFactory.js\<close> is not among the source files). The
  spec: it produces an object with the keys "subject, from, replyTo, to (array of
  {emailAddress, friendlyName} [...]), cc/bcc (basic only), textBody/htmlBody,
  apiTemplate, customHeaders (array of {name, value}), attachments (array of {name,
  content: base64, contentType}), mailingId, messageId, charSet, and for bulk sends a
  globalMergeData block plus a mergeData array aligned with to"; "encoding failure fails
  with AttachmentValidationFailed"; it "fails (rejects) if message shape does not match
  the discriminator's expected fields, propagating a structured error identical in
  shape to Validator's ValidationResult". The spec's scenario
  \<^verbatim>\<open>{from:{emailAddress:"a@x.com"}, to:[{emailAddress:"b@x.com"}], subject:"Hi", textBody:"body"}\<close>
  shows that an absent optional field and an empty optional list have no key.
  Resolving and encoding an attachment's content is input and output ("a suspension
  point"), so the encoder is a parameter; \<open>None\<close> is its failure.
\<close>

definition opt :: "string \<Rightarrow> jsval option \<Rightarrow> (string \<times> jsval) list" where
  "opt k v = (case v of None \<Rightarrow> [] | Some x \<Rightarrow> [(k, x)])"

definition arr :: "string \<Rightarrow> jsval list \<Rightarrow> (string \<times> jsval) list" where
  "arr k xs = (if xs = [] then [] else [(k, JArr xs)])"

definition address_json :: "'z EmailAddress_scheme \<Rightarrow> jsval" where
  "address_json a =
     JObj ((''emailAddress'', JStr (emailAddress a)) #
           opt ''friendlyName'' (map_option JStr (friendlyName a)))"

definition header_json :: "CustomHeader \<Rightarrow> jsval" where
  "header_json h = JObj [(''name'', JStr (headerName h)), (''value'', JStr (headerValue h))]"

definition merge_json :: "MergeData \<Rightarrow> jsval" where
  "merge_json d = JObj [(''field'', JStr (mergeField d)), (''value'', JStr (mergeValue d))]"

definition attachment_json ::
  "(attachment_source \<Rightarrow> string option) \<Rightarrow> Attachment \<Rightarrow> jsval option" where
  "attachment_json encode a =
     (case content a of
        None \<Rightarrow> None
      | Some c \<Rightarrow>
          (case encode c of
             None \<Rightarrow> None
           | Some b64 \<Rightarrow>
               Some (JObj (opt ''name'' (map_option JStr (attachmentName a)) @
                           [(''content'', JStr b64)] @
                           opt ''contentType'' (map_option JStr (mimeType a))))))"

definition envelope_json ::
  "('z EmailAddress_scheme, 'w) message_scheme \<Rightarrow> (string \<times> jsval) list" where
  "envelope_json m =
     opt ''subject'' (map_option JStr (subject m)) @
     opt ''from'' (map_option address_json (from' m)) @
     opt ''replyTo'' (map_option address_json (replyTo m)) @
     [(''to'', JArr (map address_json (to m)))]"

definition content_json ::
  "('r, 'w) message_scheme \<Rightarrow> jsval list \<Rightarrow> (string \<times> jsval) list" where
  "content_json m encoded =
     opt ''textBody'' (map_option JStr (textBody m)) @
     opt ''htmlBody'' (map_option JStr (htmlBody m)) @
     opt ''apiTemplate'' (map_option (\<lambda>n. JNum (int n)) (apiTemplate m)) @
     arr ''customHeaders'' (map header_json (customHeaders m)) @
     arr ''attachments'' encoded @
     opt ''mailingId'' (map_option JStr (mailingId m)) @
     opt ''messageId'' (map_option JStr (messageId m)) @
     opt ''charSet'' (map_option JStr (charSet m))"

definition basic_json :: "BasicMessage \<Rightarrow> jsval list \<Rightarrow> jsval" where
  "basic_json m encoded =
     JObj (envelope_json m @
           arr ''cc'' (map address_json (cc m)) @
           arr ''bcc'' (map address_json (bcc m)) @
           content_json m encoded)"

definition bulk_json :: "BulkMessage \<Rightarrow> jsval list \<Rightarrow> jsval" where
  "bulk_json m encoded =
     JObj (envelope_json m @
           content_json m encoded @
           [(''globalMergeData'', JArr (map merge_json (globalMergeData m))),
            (''mergeData'', JArr (map (\<lambda>r. JArr (map merge_json (mergeData r))) (to m)))])"

definition attachments_of :: "messageData \<Rightarrow> Attachment list" where
  "attachments_of messageData =
     (case messageData of Basic m \<Rightarrow> attachments m | Bulk m \<Rightarrow> attachments m)"

definition generateRequest ::
  "validator_config \<Rightarrow> (attachment_source \<Rightarrow> string option) \<Rightarrow> messageData \<Rightarrow>
   sendResponse + jsval" where
  "generateRequest cfg encode messageData =
     (let v = validateMessage cfg messageData in
      if result v \<noteq> Success then Inl v
      else
        (case those (map (attachment_json encode) (attachments_of messageData)) of
           None \<Rightarrow> Inl (new_sendResponse AttachmentValidationFailed)
         | Some encoded \<Rightarrow>
             (case messageData of
                Basic m \<Rightarrow> Inr (basic_json m encoded)
              | Bulk m \<Rightarrow> Inr (bulk_json m encoded))))"

text \<open>The factory as the client sees it: a promise that is fulfilled or rejected.\<close>

definition factory ::
  "validator_config \<Rightarrow> (attachment_source \<Rightarrow> string option) \<Rightarrow> messageData \<Rightarrow>
   sendResponse factory_outcome" where
  "factory cfg encode messageData =
     (case generateRequest cfg encode messageData of
        Inl e \<Rightarrow> RejectedWith e
      | Inr w \<Rightarrow> Fulfilled w)"

section \<open>Reading a wire object back\<close>

text \<open>
  Reading the documented schema back from a wire object: the value under a key, a
  string, an address object, an array of address objects. The subject, sender,
  recipients and the two bodies are the fields the round trip is about.
\<close>

definition field :: "string \<Rightarrow> jsval \<Rightarrow> jsval option" where
  "field k w = (case w of JObj kvs \<Rightarrow> map_of kvs k | _ \<Rightarrow> None)"

definition as_string :: "jsval option \<Rightarrow> string option" where
  "as_string v = (case v of Some (JStr s) \<Rightarrow> Some s | _ \<Rightarrow> None)"

definition parse_address :: "jsval \<Rightarrow> EmailAddress option" where
  "parse_address j =
     (case as_string (field ''emailAddress'' j) of
        None \<Rightarrow> None
      | Some e \<Rightarrow>
          Some \<lparr>emailAddress = e, friendlyName = as_string (field ''friendlyName'' j)\<rparr>)"

definition parse_addresses :: "jsval option \<Rightarrow> EmailAddress list option" where
  "parse_addresses v =
     (case v of Some (JArr js) \<Rightarrow> those (map parse_address js) | _ \<Rightarrow> None)"

record wire_fields =
  wire_subject :: "string option"
  wire_from :: "EmailAddress option"
  wire_to :: "EmailAddress list"
  wire_textBody :: "string option"
  wire_htmlBody :: "string option"

definition parse_request :: "jsval \<Rightarrow> wire_fields option" where
  "parse_request w =
     (case parse_addresses (field ''to'' w) of
        None \<Rightarrow> None
      | Some rs \<Rightarrow>
          Some \<lparr>wire_subject = as_string (field ''subject'' w),
                wire_from = (case field ''from'' w of None \<Rightarrow> None | Some j \<Rightarrow> parse_address j),
                wire_to = rs,
                wire_textBody = as_string (field ''textBody'' w),
                wire_htmlBody = as_string (field ''htmlBody'' w)\<rparr>)"

definition message_fields :: "BasicMessage \<Rightarrow> wire_fields" where
  "message_fields m =
     \<lparr>wire_subject = subject m,
      wire_from = from' m,
      wire_to = to m,
      wire_textBody = textBody m,
      wire_htmlBody = htmlBody m\<rparr>"

section \<open>The form of the user agent\<close>

text \<open>
  The form \<^verbatim>\<open><client-name>/<version> (<runtime>/<runtime-version>)\<close> as the spec
  writes it, for comparison with the constructor's template literal.
\<close>

definition slash_form :: "string \<Rightarrow> bool" where
  "slash_form ua =
     (\<exists>name ver runtime runtime_ver.
        ua = name @ ''/'' @ ver @ '' ('' @ runtime @ ''/'' @ runtime_ver @ '')'')"

section \<open>Example inputs\<close>

text \<open>
  A client, a wire object and collaborators for concrete runs: the validator of the
  previous section, a factory that fulfils its promise with a given value, an HTTP layer
  that calls back with a given answer (or never), and a parser that reports success for
  every response but \<^verbatim>\<open>undefined\<close>.
\<close>

definition example_client :: client where
  "example_client =
     SocketLabsClient ''1.2.3'' ''v12.0.0'' (JNum 1000) (JStr ''key'') JNull JNull"

definition example_wire :: jsval where
  "example_wire = JObj [(''subject'', JStr ''Hi'')]"

definition example_collaborators ::
  "(jsval \<times> jsval \<times> jsval) option \<Rightarrow> jsval \<Rightarrow> (unit, unit) collaborators" where
  "example_collaborators answer requestJson =
     \<lparr>validator_validateCredentials = validateCredentials,
      factory_generateRequest = (\<lambda>m. Fulfilled requestJson),
      request_post = (\<lambda>options. answer),
      sendResponse_parse =
        (\<lambda>res. new_sendResponse (if res = JUndefined then UnknownError else Success))\<rparr>"

text \<open>
  The spec's scenario message (from \<^verbatim>\<open>a@x.com\<close>, to \<^verbatim>\<open>b@x.com\<close>, subject
  \<^verbatim>\<open>Hi\<close>, text body \<^verbatim>\<open>body\<close>), a bulk message with two recipients, and two
  validator configurations that differ only in the order of the checks: the order in
  which the spec lists them, and the one with the recipient check first.
\<close>

definition example_config :: validator_config where
  "example_config =
     \<lparr>maxRecipients = 50,
      wellFormed = (\<lambda>s. CHR ''@'' \<in> set s),
      checkOrder = [FromCheck, RecipientCheck, MessageCheck, AttachmentCheck]\<rparr>"

definition recipients_first_config :: validator_config where
  "recipients_first_config =
     example_config\<lparr>checkOrder := [RecipientCheck, FromCheck, MessageCheck, AttachmentCheck]\<rparr>"

definition example_basic :: BasicMessage where
  "example_basic =
     \<lparr>subject = Some ''Hi'',
      from' = Some \<lparr>emailAddress = ''a@x.com'', friendlyName = None\<rparr>,
      replyTo = None,
      to = [\<lparr>emailAddress = ''b@x.com'', friendlyName = None\<rparr>],
      textBody = Some ''body'',
      htmlBody = None,
      apiTemplate = None,
      customHeaders = [],
      attachments = [],
      mailingId = None,
      messageId = None,
      charSet = None,
      cc = [],
      bcc = []\<rparr>"

definition example_bulk :: BulkMessage where
  "example_bulk =
     \<lparr>subject = Some ''Hi'',
      from' = Some \<lparr>emailAddress = ''a@x.com'', friendlyName = None\<rparr>,
      replyTo = None,
      to = [\<lparr>emailAddress = ''b@x.com'', friendlyName = None,
              mergeData = [\<lparr>mergeField = ''name'', mergeValue = ''B''\<rparr>]\<rparr>,
            \<lparr>emailAddress = ''c@x.com'', friendlyName = Some ''C'',
              mergeData = [\<lparr>mergeField = ''name'', mergeValue = ''C''\<rparr>]\<rparr>],
      textBody = Some ''Hello %%name%%'',
      htmlBody = None,
      apiTemplate = None,
      customHeaders = [],
      attachments = [],
      mailingId = None,
      messageId = None,
      charSet = None,
      globalMergeData = [\<lparr>mergeField = ''team'', mergeValue = ''X''\<rparr>]\<rparr>"

section \<open>Basic facts about one call of send\<close>

lemma send_rejected:
  "result (validator_validateCredentials env (serverId this) (apiKey this)) \<noteq> Success \<Longrightarrow>
   snd (send env this m) =
     [ValidateCredentials (serverId this) (apiKey this),
      Reject (Response (validator_validateCredentials env (serverId this) (apiKey this)))]"
  by (simp add: send_def Let_def)

lemma send_posted:
  assumes "result (validator_validateCredentials env (serverId this) (apiKey this)) = Success"
    and "factory_generateRequest env m = Fulfilled requestJson"
    and "truthy requestJson"
  shows "snd (send env this m) =
     [ValidateCredentials (serverId this) (apiKey this), GenerateRequest m,
      Post (request_options this requestJson)] @
     (case request_post env (request_options this requestJson) of
        Some (err, res, body') \<Rightarrow> post_callback (sendResponse_parse env) err res body'
      | None \<Rightarrow> [])"
  using assms by (simp add: send_def Let_def request_options_def)

lemma posted_append: "posted (xs @ ys) = posted xs @ posted ys"
  by (induction xs rule: posted.induct) simp_all

lemma posted_post_callback: "posted (post_callback parse err res b) = []"
  by (simp add: post_callback_def Let_def)

lemma in_sendResultEnum_values: "c \<in> set sendResultEnum_values"
  by (cases c) (simp_all add: sendResultEnum_values_def)

lemma example_credentials:
  "result (validateCredentials (JNum 1000) (JStr ''key'')) = Success"
  by (simp add: validateCredentials_def missing_def new_sendResponse_def)

lemma example_client_fields:
  "serverId example_client = JNum 1000"
  "apiKey example_client = JStr ''key''"
  "userAgent example_client = ''SocketLabs-node/1.2.3 (nodejs v12.0.0)''"
  "endpointUrl example_client = JStr ''https://inject.socketlabs.com/api/v1/email''"
  by (simp_all add: example_client_def SocketLabsClient_def)

text \<open>\<^verbatim>\<open>typeof\<close> says string for strings only.\<close>

lemma typeof_string: "typeof v = ''string'' \<longleftrightarrow> (\<exists>s. v = JStr s)"
  by (cases v) simp_all

text \<open>
  What holds on every transport failure: the promise is rejected with \<open>UnknownError\<close>,
  carrying the error when it is a string; the response is handed to the parser all the
  same, and the promise's functions are called twice.
\<close>

lemma send_transport_error:
  assumes "result (validator_validateCredentials env (serverId this) (apiKey this)) = Success"
    and "factory_generateRequest env m = Fulfilled requestJson"
    and "truthy requestJson"
    and "request_post env (request_options this requestJson) = Some (err, res, body')"
    and "truthy err"
  shows "settle (snd (send env this m)) =
           Some (Rejected (Response
             (case err of
                JStr s \<Rightarrow> (new_sendResponse UnknownError)\<lparr>responseMessage := Some s\<rparr>
              | _ \<Rightarrow> new_sendResponse UnknownError)))"
    and "parsed (snd (send env this m)) = [res]"
    and "length (filter is_settling (snd (send env this m))) = 2"
proof -
  have tr: "snd (send env this m) =
     [ValidateCredentials (serverId this) (apiKey this), GenerateRequest m,
      Post (request_options this requestJson)] @
      post_callback (sendResponse_parse env) err res body'"
    using send_posted [OF assms(1-3)] assms(4) by simp
  show "settle (snd (send env this m)) =
           Some (Rejected (Response
             (case err of
                JStr s \<Rightarrow> (new_sendResponse UnknownError)\<lparr>responseMessage := Some s\<rparr>
              | _ \<Rightarrow> new_sendResponse UnknownError)))"
    using assms(5) by (cases err) (simp_all add: tr post_callback_def Let_def)
  show "parsed (snd (send env this m)) = [res]"
    using assms(5) by (simp add: tr post_callback_def Let_def)
  show "length (filter is_settling (snd (send env this m))) = 2"
    using assms(5) by (simp add: tr post_callback_def Let_def)
qed

section \<open>The claims about send\<close>

text \<open>
  Claim C1. When the transport call fails, the promise settles with exactly one outcome,
  \<open>UnknownError\<close> (carrying the raw error when it is a string), and the raw response is
  not handed to the response parser on that path.

  The code misses the last part. The run below has valid credentials, a factory that
  yields a wire object, and an HTTP layer that calls back with the error string
  \<^verbatim>\<open>ECONNREFUSED\<close> and no response. The promise is rejected with \<open>UnknownError\<close>
  and the message, but the callback does not return there: it goes on to hand the
  (undefined) response to the parser and calls \<^verbatim>\<open>reject\<close> a second time.
\<close>

theorem send_transport_error_still_parses:
  "snd (send (example_collaborators (Some (JStr ''ECONNREFUSED'', JUndefined, JUndefined))
                example_wire)
          example_client ())
   = [ValidateCredentials (JNum 1000) (JStr ''key''),
      GenerateRequest (),
      Post (request_options example_client example_wire),
      Reject (Response ((new_sendResponse UnknownError)
                \<lparr>responseMessage := Some ''ECONNREFUSED''\<rparr>)),
      Parse JUndefined,
      Reject (Response (new_sendResponse UnknownError))]"
  by (simp add: send_def Let_def post_callback_def new_sendResponse_def request_options_def
      example_collaborators_def example_wire_def example_client_fields
      validateCredentials_def missing_def)

text \<open>
  Claim C2. If the client's serverId is missing, non-numeric or not positive, send
  rejects with \<open>InvalidServerId\<close>; if the serverId is valid and the apiKey is missing or
  empty, send rejects with \<open>InvalidApiKey\<close>; in both cases no wire request has been
  built and no HTTP POST has been issued. The validator is the one modelled from the
  spec.
\<close>

theorem send_rejects_invalid_credentials:
  assumes "validator_validateCredentials env = validateCredentials"
  shows "(missing (serverId this) \<or> \<not> numeric (serverId this) \<or> non_positive (serverId this) \<longrightarrow>
            settle (snd (send env this m)) =
              Some (Rejected (Response (new_sendResponse InvalidServerId)))
            \<and> generated (snd (send env this m)) = []
            \<and> posted (snd (send env this m)) = [])
       \<and> (numeric (serverId this) \<and> \<not> non_positive (serverId this)
            \<and> (missing (apiKey this) \<or> apiKey this = JStr []) \<longrightarrow>
            settle (snd (send env this m)) =
              Some (Rejected (Response (new_sendResponse InvalidApiKey)))
            \<and> generated (snd (send env this m)) = []
            \<and> posted (snd (send env this m)) = [])"
proof (intro conjI impI)
  assume bad: "missing (serverId this) \<or> \<not> numeric (serverId this) \<or> non_positive (serverId this)"
  then have v: "validator_validateCredentials env (serverId this) (apiKey this) =
      new_sendResponse InvalidServerId"
    by (simp add: assms validateCredentials_def)
  have tr: "snd (send env this m) =
     [ValidateCredentials (serverId this) (apiKey this),
      Reject (Response (new_sendResponse InvalidServerId))]"
    using send_rejected [of env this m] by (simp add: v new_sendResponse_def)
  show "settle (snd (send env this m)) =
      Some (Rejected (Response (new_sendResponse InvalidServerId)))"
    by (simp add: tr)
  show "generated (snd (send env this m)) = []" by (simp add: tr)
  show "posted (snd (send env this m)) = []" by (simp add: tr)
next
  assume ok: "numeric (serverId this) \<and> \<not> non_positive (serverId this)
            \<and> (missing (apiKey this) \<or> apiKey this = JStr [])"
  then have "\<not> missing (serverId this)"
    by (cases "serverId this") (simp_all add: missing_def)
  with ok have v: "validator_validateCredentials env (serverId this) (apiKey this) =
      new_sendResponse InvalidApiKey"
    by (simp add: assms validateCredentials_def)
  have tr: "snd (send env this m) =
     [ValidateCredentials (serverId this) (apiKey this),
      Reject (Response (new_sendResponse InvalidApiKey))]"
    using send_rejected [of env this m] by (simp add: v new_sendResponse_def)
  show "settle (snd (send env this m)) =
      Some (Rejected (Response (new_sendResponse InvalidApiKey)))"
    by (simp add: tr)
  show "generated (snd (send env this m)) = []" by (simp add: tr)
  show "posted (snd (send env this m)) = []" by (simp add: tr)
qed

text \<open>The spec's two scenarios: serverId 0 with apiKey "x", and serverId 123 with an empty apiKey.\<close>

theorem send_rejects_invalid_credentials_witness:
  "settle (snd (send (example_collaborators None example_wire)
                  (example_client\<lparr>serverId := JNum 0, apiKey := JStr ''x''\<rparr>) ())) =
     Some (Rejected (Response (new_sendResponse InvalidServerId)))
   \<and> posted (snd (send (example_collaborators None example_wire)
                  (example_client\<lparr>serverId := JNum 0, apiKey := JStr ''x''\<rparr>) ())) = []
   \<and> settle (snd (send (example_collaborators None example_wire)
                  (example_client\<lparr>serverId := JNum 123, apiKey := JStr []\<rparr>) ())) =
     Some (Rejected (Response (new_sendResponse InvalidApiKey)))
   \<and> generated (snd (send (example_collaborators None example_wire)
                  (example_client\<lparr>serverId := JNum 123, apiKey := JStr []\<rparr>) ())) = []"
proof -
  have e: "validator_validateCredentials (example_collaborators None example_wire) =
      validateCredentials"
    by (simp add: example_collaborators_def)
  show ?thesis
    using send_rejects_invalid_credentials
        [OF e, of "example_client\<lparr>serverId := JNum 0, apiKey := JStr ''x''\<rparr>" "()"]
      send_rejects_invalid_credentials
        [OF e, of "example_client\<lparr>serverId := JNum 123, apiKey := JStr []\<rparr>" "()"]
    by simp
qed

text \<open>
  Claim C5. When the transport call returns a response (credentials valid, a truthy
  wire object, a callback without error), send resolves with the parsed response exactly
  when its result is \<open>Success\<close> and rejects with it otherwise. The promise's functions
  are called once, the parser is given the response once, and the settled value carries
  one result code of the enumeration. This holds for every parser.
\<close>

theorem send_settles_by_parsed_result:
  assumes "result (validator_validateCredentials env (serverId this) (apiKey this)) = Success"
    and "factory_generateRequest env m = Fulfilled requestJson"
    and "truthy requestJson"
    and "request_post env (request_options this requestJson) = Some (err, res, body')"
    and "\<not> truthy err"
  shows "settle (snd (send env this m)) =
           Some (if result (sendResponse_parse env res) = Success
                 then Resolved (Response (sendResponse_parse env res))
                 else Rejected (Response (sendResponse_parse env res)))
         \<and> length (filter is_settling (snd (send env this m))) = 1
         \<and> parsed (snd (send env this m)) = [res]
         \<and> result (sendResponse_parse env res) \<in> set sendResultEnum_values"
proof -
  have tr: "snd (send env this m) =
     [ValidateCredentials (serverId this) (apiKey this), GenerateRequest m,
      Post (request_options this requestJson)] @
      post_callback (sendResponse_parse env) err res body'"
    using send_posted [OF assms(1-3)] assms(4) by simp
  show ?thesis
    using assms(5) by (simp add: tr post_callback_def Let_def in_sendResultEnum_values)
qed

theorem send_settles_by_parsed_result_witness:
  "settle (snd (send (example_collaborators (Some (JNull, JObj [], JObj [])) example_wire)
                  example_client ())) =
     Some (Resolved (Response (new_sendResponse Success)))
   \<and> settle (snd (send (example_collaborators (Some (JNull, JUndefined, JUndefined))
                        example_wire)
                  example_client ())) =
     Some (Rejected (Response (new_sendResponse UnknownError)))"
proof -
  have c: "\<And>a. result (validator_validateCredentials (example_collaborators a example_wire)
      (serverId example_client) (apiKey example_client)) = Success"
    by (simp add: example_collaborators_def example_client_fields example_credentials)
  have f: "\<And>a. factory_generateRequest (example_collaborators a example_wire) () =
      Fulfilled example_wire"
    by (simp add: example_collaborators_def)
  have t: "truthy example_wire" by (simp add: example_wire_def)
  have p: "\<And>a. request_post (example_collaborators a example_wire)
      (request_options example_client example_wire) = a"
    by (simp add: example_collaborators_def)
  have n: "\<not> truthy JNull" by simp
  show ?thesis
    using send_settles_by_parsed_result [OF c f t p n, of "JObj []" "JObj []"]
      send_settles_by_parsed_result [OF c f t p n, of JUndefined JUndefined]
    by (simp add: example_collaborators_def new_sendResponse_def)
qed

text \<open>
  Claim C6, as the spec states it: the POST carries a User-Agent header of the form
  \<^verbatim>\<open><client-name>/<version> (<runtime>/<runtime-version>)\<close>. It fails: for version
  \<^verbatim>\<open>1.2.3\<close> on runtime \<^verbatim>\<open>v12.0.0\<close> the header posted is
  \<^verbatim>\<open>SocketLabs-node/1.2.3 (nodejs v12.0.0)\<close>, with a space where the spec has the
  second slash, and this string is not of the spec's form.
\<close>

theorem user_agent_not_slash_form:
  "map headers (posted (snd (send (example_collaborators None example_wire)
                               example_client ()))) =
     [[(''User-Agent'', ''SocketLabs-node/1.2.3 (nodejs v12.0.0)'')]]
   \<and> \<not> slash_form ''SocketLabs-node/1.2.3 (nodejs v12.0.0)''"
proof
  show "map headers (posted (snd (send (example_collaborators None example_wire)
                                    example_client ()))) =
     [[(''User-Agent'', ''SocketLabs-node/1.2.3 (nodejs v12.0.0)'')]]"
    by (simp add: send_def Let_def example_collaborators_def example_client_fields
        example_credentials example_wire_def)
  show "\<not> slash_form ''SocketLabs-node/1.2.3 (nodejs v12.0.0)''"
  proof
    assume "slash_form ''SocketLabs-node/1.2.3 (nodejs v12.0.0)''"
    then obtain name ver runtime runtime_ver where
      e: "''SocketLabs-node/1.2.3 (nodejs v12.0.0)'' =
          name @ ''/'' @ ver @ '' ('' @ runtime @ ''/'' @ runtime_ver @ '')''"
      unfolding slash_form_def by blast
    have "2 \<le> count_list
        (name @ ''/'' @ ver @ '' ('' @ runtime @ ''/'' @ runtime_ver @ '')'') CHR ''/''"
      by simp
    moreover have "count_list ''SocketLabs-node/1.2.3 (nodejs v12.0.0)'' CHR ''/'' = 1"
      by simp
    ultimately show False using e by simp
  qed
qed

text \<open>
  Claim C6, amended: for a client built by the constructor, valid credentials and a
  truthy wire object, send issues exactly one POST; its JSON body is
  \<^verbatim>\<open>{serverId, apiKey, messages: [wireObject]}\<close> with one element in
  \<^verbatim>\<open>messages\<close>, and its User-Agent header is
  \<^verbatim>\<open>SocketLabs-node/<version> (nodejs <runtime-version>)\<close>.
\<close>

theorem send_posts_body_and_user_agent:
  assumes "result (validator_validateCredentials env serverId' apiKey') = Success"
    and "factory_generateRequest env m = Fulfilled requestJson"
    and "truthy requestJson"
  shows "posted (snd (send env
            (SocketLabsClient version process_version serverId' apiKey'
               endpointUrl' optionalProxy') m)) =
     [\<lparr>body = JObj [(''serverId'', serverId'),
                    (''apiKey'', apiKey'),
                    (''messages'', JArr [requestJson])],
       headers = [(''User-Agent'',
                   ''SocketLabs-node/'' @ version @ '' (nodejs '' @ process_version @ '')'')],
       json = True,
       url = (if truthy endpointUrl' \<and> endpointUrl' \<noteq> JStr []
              then endpointUrl'
              else JStr ''https://inject.socketlabs.com/api/v1/email'')\<rparr>]"
proof -
  let ?c = "SocketLabsClient version process_version serverId' apiKey'
              endpointUrl' optionalProxy'"
  have s: "serverId ?c = serverId'" "apiKey ?c = apiKey'"
    by (simp_all add: SocketLabsClient_def)
  have "posted (snd (send env ?c m)) = [request_options ?c requestJson]"
    using send_posted [of env ?c m requestJson] assms
    by (simp add: s posted_append posted_post_callback split: option.splits)
  then show ?thesis
    by (simp add: request_options_def SocketLabsClient_def)
qed

theorem send_posts_body_and_user_agent_witness:
  "posted (snd (send (example_collaborators None example_wire) example_client ())) =
     [\<lparr>body = JObj [(''serverId'', JNum 1000),
                    (''apiKey'', JStr ''key''),
                    (''messages'', JArr [JObj [(''subject'', JStr ''Hi'')]])],
       headers = [(''User-Agent'', ''SocketLabs-node/1.2.3 (nodejs v12.0.0)'')],
       json = True,
       url = JStr ''https://inject.socketlabs.com/api/v1/email''\<rparr>]"
proof -
  have c: "result (validator_validateCredentials (example_collaborators None example_wire)
      (JNum 1000) (JStr ''key'')) = Success"
    by (simp add: example_collaborators_def example_credentials)
  have f: "factory_generateRequest (example_collaborators None example_wire) () =
      Fulfilled example_wire"
    by (simp add: example_collaborators_def)
  have t: "truthy example_wire" by (simp add: example_wire_def)
  show ?thesis
    using send_posts_body_and_user_agent [OF c f t, of "''1.2.3''" "''v12.0.0''" JNull JNull]
    by (simp add: example_client_def example_wire_def)
qed

text \<open>
  Claim C9. send does not write the client's configuration: the client after the call
  is the client before it, whatever the collaborators do, and for a client built by the
  constructor the fields serverId, apiKey, userAgent and endpointUrl still have the
  values the constructor gave them.
\<close>

theorem send_keeps_configuration:
  "fst (send env this m) = this
   \<and> serverId (fst (send env (SocketLabsClient version process_version
        serverId' apiKey' endpointUrl' optionalProxy') m)) = serverId'
   \<and> apiKey (fst (send env (SocketLabsClient version process_version
        serverId' apiKey' endpointUrl' optionalProxy') m)) = apiKey'
   \<and> userAgent (fst (send env (SocketLabsClient version process_version
        serverId' apiKey' endpointUrl' optionalProxy') m)) =
        ''SocketLabs-node/'' @ version @ '' (nodejs '' @ process_version @ '')''
   \<and> endpointUrl (fst (send env (SocketLabsClient version process_version
        serverId' apiKey' endpointUrl' optionalProxy') m)) =
       (if truthy endpointUrl' \<and> endpointUrl' \<noteq> JStr []
        then endpointUrl'
        else JStr ''https://inject.socketlabs.com/api/v1/email'')"
proof -
  have "\<And>c. fst (send env c m) = c"
    by (simp add: send_def Let_def)
  then show ?thesis
    by (simp add: SocketLabsClient_def)
qed

text \<open>
  Claim C10. If the credentials are valid and the factory's promise is fulfilled with a
  falsy value (such as \<^verbatim>\<open>null\<close> or \<^verbatim>\<open>undefined\<close>), neither \<^verbatim>\<open>resolve\<close> nor
  \<^verbatim>\<open>reject\<close> is ever called: the promise returned by send stays pending, and nothing
  is posted.
\<close>

theorem send_falsy_request_never_settles:
  assumes "result (validator_validateCredentials env (serverId this) (apiKey this)) = Success"
    and "factory_generateRequest env m = Fulfilled requestJson"
    and "\<not> truthy requestJson"
  shows "settle (snd (send env this m)) = None
         \<and> filter is_settling (snd (send env this m)) = []
         \<and> posted (snd (send env this m)) = []"
  using assms by (simp add: send_def Let_def)

theorem send_falsy_request_never_settles_witness:
  "settle (snd (send (example_collaborators None JNull) example_client ())) = None
   \<and> filter is_settling
       (snd (send (example_collaborators None JUndefined) example_client ())) = []"
proof -
  have c: "\<And>j. result (validator_validateCredentials (example_collaborators None j)
      (serverId example_client) (apiKey example_client)) = Success"
    by (simp add: example_collaborators_def example_client_fields example_credentials)
  have f: "\<And>j. factory_generateRequest (example_collaborators None j) () = Fulfilled j"
    by (simp add: example_collaborators_def)
  show ?thesis
    using send_falsy_request_never_settles [OF c f, of JNull]
      send_falsy_request_never_settles [OF c f, of JUndefined]
    by simp
qed

section \<open>The message validator: what the order of the checks decides\<close>

lemma result_new_sendResponse: "result (new_sendResponse c) = c"
  by (simp add: new_sendResponse_def)

text \<open>The messages a validator accepts do not depend on the order of its checks.\<close>

lemma validate_shape_success:
  "result (validate_shape cfg m) = Success \<longleftrightarrow>
     (\<forall>c \<in> set (checkOrder cfg). \<not> check_fails cfg m c)"
proof (cases "find (check_fails cfg m) (checkOrder cfg)")
  case None
  have "result (validate_shape cfg m) = Success"
    by (simp add: validate_shape_def None result_new_sendResponse)
  moreover have "\<forall>c \<in> set (checkOrder cfg). \<not> check_fails cfg m c"
    using None by (simp add: find_None_iff)
  ultimately show ?thesis by simp
next
  case (Some c)
  then have "c \<in> set (checkOrder cfg)" and "check_fails cfg m c"
    by (auto simp add: find_Some_iff)
  moreover have "failure_code c \<noteq> Success" by (cases c) simp_all
  ultimately show ?thesis
    using Some by (auto simp add: validate_shape_def result_new_sendResponse)
qed

text \<open>
  With every check run, the accepted messages are those with a well-formed sender, a
  valid recipient list, a subject, a body and complete attachments, whatever the order.
\<close>

lemma validate_shape_accepts:
  assumes "runs_every_check cfg"
  shows "result (validate_shape cfg m) = Success \<longleftrightarrow>
     (\<not> invalid_from cfg (from' m) \<and> \<not> invalid_recipients cfg (to m)
      \<and> \<not> empty_text (subject m)
      \<and> \<not> (empty_text (textBody m) \<and> empty_text (htmlBody m))
      \<and> \<not> list_ex invalid_attachment (attachments m))"
proof
  assume "result (validate_shape cfg m) = Success"
  then have none: "\<forall>c \<in> set (checkOrder cfg). \<not> check_fails cfg m c"
    by (simp add: validate_shape_success)
  have "\<not> check_fails cfg m FromCheck" "\<not> check_fails cfg m RecipientCheck"
    "\<not> check_fails cfg m MessageCheck" "\<not> check_fails cfg m AttachmentCheck"
    using none assms by (simp_all add: runs_every_check_def)
  then show "\<not> invalid_from cfg (from' m) \<and> \<not> invalid_recipients cfg (to m)
      \<and> \<not> empty_text (subject m)
      \<and> \<not> (empty_text (textBody m) \<and> empty_text (htmlBody m))
      \<and> \<not> list_ex invalid_attachment (attachments m)"
    by (simp add: check_fails_def)
next
  assume ok: "\<not> invalid_from cfg (from' m) \<and> \<not> invalid_recipients cfg (to m)
      \<and> \<not> empty_text (subject m)
      \<and> \<not> (empty_text (textBody m) \<and> empty_text (htmlBody m))
      \<and> \<not> list_ex invalid_attachment (attachments m)"
  have "\<not> check_fails cfg m c" for c
    using ok by (cases c) (simp_all add: check_fails_def)
  then show "result (validate_shape cfg m) = Success"
    by (simp add: validate_shape_success)
qed

text \<open>A message with a single defect gets the code of that defect, in every order.\<close>

lemma validate_shape_single_failure:
  assumes "c \<in> set (checkOrder cfg)" and "check_fails cfg m c"
    and "\<And>d. d \<noteq> c \<Longrightarrow> \<not> check_fails cfg m d"
  shows "result (validate_shape cfg m) = failure_code c"
proof -
  have "find (check_fails cfg m) xs = (if c \<in> set xs then Some c else None)" for xs
  proof (induction xs)
    case Nil
    show ?case by simp
  next
    case (Cons a xs)
    show ?case
    proof (cases "check_fails cfg m a")
      case True
      then have "a = c" using assms(3) [of a] by blast
      with True show ?thesis by simp
    next
      case False
      then have "a \<noteq> c" using assms(2) by blast
      with False Cons.IH show ?thesis by simp
    qed
  qed
  then show ?thesis
    using assms(1) by (simp add: validate_shape_def result_new_sendResponse)
qed

text \<open>The check that runs first decides whenever it fails.\<close>

lemma validate_shape_first_check:
  assumes "checkOrder cfg = c # cs" and "check_fails cfg m c"
  shows "result (validate_shape cfg m) = failure_code c"
  using assms by (simp add: validate_shape_def result_new_sendResponse)

text \<open>
  A message with several defects gets the code of the check that runs first. The
  message below has neither sender nor recipient: with the sender check first it gets
  \<open>EmailAddressValidationFailed\<close>, with the recipient check first
  \<open>RecipientValidationFailed\<close>. The spec does not say which order the validator uses, so
  it does not decide the result code of such a message.
\<close>

lemma validateMessage_order_matters:
  "result (validateMessage example_config
             (Basic (example_basic\<lparr>from' := None, to := []\<rparr>))) =
     EmailAddressValidationFailed"
  "result (validateMessage recipients_first_config
             (Basic (example_basic\<lparr>from' := None, to := []\<rparr>))) =
     RecipientValidationFailed"
  by (simp_all add: validateMessage_def validate_shape_def check_fails_def
      result_new_sendResponse invalid_from_def invalid_recipients_def
      recipients_first_config_def example_config_def)

text \<open>
  No validator that returns one result code can return \<open>RecipientValidationFailed\<close> for
  every message with no recipient and also \<open>MessageValidationFailed\<close> for every message
  with an empty subject: a message can have both defects.
\<close>

lemma no_validator_meets_both:
  "\<not> ((\<forall>m. recipients m = [] \<longrightarrow> result (f m) = RecipientValidationFailed)
      \<and> (\<forall>m. empty_text (subject_of m) \<longrightarrow> result (f m) = MessageValidationFailed))"
proof
  assume a: "(\<forall>m. recipients m = [] \<longrightarrow> result (f m) = RecipientValidationFailed)
      \<and> (\<forall>m. empty_text (subject_of m) \<longrightarrow> result (f m) = MessageValidationFailed)"
  let ?m = "Basic (example_basic\<lparr>subject := None, to := []\<rparr>)"
  have "recipients ?m = []" by (simp add: recipients_def)
  moreover have "empty_text (subject_of ?m)" by (simp add: subject_of_def empty_text_def)
  ultimately have "result (f ?m) = RecipientValidationFailed"
    and "result (f ?m) = MessageValidationFailed"
    using a by blast+
  then show False by simp
qed

section \<open>The claims about the request factory\<close>

text \<open>Looking a key up in the wire object, block by block.\<close>


lemma map_of_opt:
  "map_of (opt k v @ rest) k' =
     (if k' = k then (case v of None \<Rightarrow> map_of rest k' | Some x \<Rightarrow> Some x) else map_of rest k')"
  by (simp add: opt_def split: option.splits)

lemma map_of_arr:
  "map_of (arr k xs @ rest) k' =
     (if k' = k \<and> xs \<noteq> [] then Some (JArr xs) else map_of rest k')"
  by (simp add: arr_def)

lemma map_of_opt_last:
  "map_of (opt k v) k' = (if k' = k then v else None)"
  by (simp add: opt_def split: option.splits)

lemma field_content_json:
  "k \<notin> {''textBody'', ''htmlBody'', ''apiTemplate'', ''customHeaders'', ''attachments'',
         ''mailingId'', ''messageId'', ''charSet''} \<Longrightarrow>
   map_of (content_json m encoded @ rest) k = map_of rest k"
  by (simp add: content_json_def map_of_opt map_of_arr map_of_opt_last del: map_of_append)

lemma field_content_json_last:
  "k \<notin> {''textBody'', ''htmlBody'', ''apiTemplate'', ''customHeaders'', ''attachments'',
         ''mailingId'', ''messageId'', ''charSet''} \<Longrightarrow>
   map_of (content_json m encoded) k = None"
  using field_content_json [of k m encoded "[]"] by simp

lemma textBody_content_json:
  "map_of (content_json m encoded) ''textBody'' = map_option JStr (textBody m)"
  by (simp add: content_json_def map_of_opt map_of_arr map_of_opt_last del: map_of_append split: option.splits)

lemma htmlBody_content_json:
  "map_of (content_json m encoded) ''htmlBody'' = map_option JStr (htmlBody m)"
  by (simp add: content_json_def map_of_opt map_of_arr map_of_opt_last del: map_of_append split: option.splits)

lemma envelope_to:
  "map_of (envelope_json m @ rest) ''to'' = Some (JArr (map address_json (to m)))"
  by (simp add: envelope_json_def map_of_opt del: map_of_append)

lemma envelope_subject:
  "map_of (envelope_json m @ rest) ''subject'' =
     (case subject m of None \<Rightarrow> map_of rest ''subject'' | Some s \<Rightarrow> Some (JStr s))"
  by (simp add: envelope_json_def map_of_opt del: map_of_append split: option.splits)

lemma envelope_from:
  "map_of (envelope_json m @ rest) ''from'' =
     (case from' m of None \<Rightarrow> map_of rest ''from'' | Some a \<Rightarrow> Some (address_json a))"
  by (simp add: envelope_json_def map_of_opt del: map_of_append split: option.splits)

lemma basic_rest:
  "k \<notin> {''cc'', ''bcc'', ''textBody'', ''htmlBody'', ''apiTemplate'', ''customHeaders'',
         ''attachments'', ''mailingId'', ''messageId'', ''charSet''} \<Longrightarrow>
   map_of (arr ''cc'' xs @ arr ''bcc'' ys @ content_json m encoded) k = None"
  by (simp add: map_of_arr field_content_json_last del: map_of_append)

lemma envelope_other:
  "k \<notin> {''subject'', ''from'', ''replyTo'', ''to''} \<Longrightarrow>
   map_of (envelope_json m @ rest) k = map_of rest k"
  by (simp add: envelope_json_def map_of_opt del: map_of_append)

lemma generateRequest_bulk:
  assumes "result (validateMessage cfg (Bulk m)) = Success"
    and "those (map (attachment_json encode) (attachments m)) = Some encoded"
  shows "generateRequest cfg encode (Bulk m) = Inr (bulk_json m encoded)"
  using assms by (simp add: generateRequest_def Let_def attachments_of_def)

lemma generateRequest_basic:
  assumes "result (validateMessage cfg (Basic m)) = Success"
    and "those (map (attachment_json encode) (attachments m)) = Some encoded"
  shows "generateRequest cfg encode (Basic m) = Inr (basic_json m encoded)"
  using assms by (simp add: generateRequest_def Let_def attachments_of_def)

text \<open>
  Claim C7. For every valid bulk message with N recipients whose attachments encode,
  generateRequest produces a wire object whose \<^verbatim>\<open>mergeData\<close> array has length N
  and whose i-th entry is the merge data of the i-th recipient, the i-th entry of
  \<^verbatim>\<open>to\<close> being that recipient's address; the global merge data is a separate
  top-level block. The factory is the one modelled from the spec.
\<close>

theorem generateRequest_bulk_mergeData:
  assumes "result (validateMessage cfg (Bulk m)) = Success"
    and "those (map (attachment_json encode) (attachments m)) \<noteq> None"
  shows "\<exists>w tos mds.
           generateRequest cfg encode (Bulk m) = Inr w
         \<and> field ''to'' w = Some (JArr tos)
         \<and> field ''mergeData'' w = Some (JArr mds)
         \<and> length tos = length (to m)
         \<and> length mds = length (to m)
         \<and> (\<forall>i < length (to m).
              tos ! i = address_json (to m ! i)
            \<and> mds ! i = JArr (map merge_json (mergeData (to m ! i))))
         \<and> field ''globalMergeData'' w = Some (JArr (map merge_json (globalMergeData m)))"
proof -
  from assms(2) obtain encoded where
    e: "those (map (attachment_json encode) (attachments m)) = Some encoded"
    by blast
  have g: "generateRequest cfg encode (Bulk m) = Inr (bulk_json m encoded)"
    by (rule generateRequest_bulk [OF assms(1) e])
  have t: "field ''to'' (bulk_json m encoded) = Some (JArr (map address_json (to m)))"
    by (simp add: field_def bulk_json_def envelope_to del: map_of_append)
  have d: "field ''mergeData'' (bulk_json m encoded) =
      Some (JArr (map (\<lambda>r. JArr (map merge_json (mergeData r))) (to m)))"
    by (simp add: field_def bulk_json_def envelope_other field_content_json del: map_of_append)
  have gl: "field ''globalMergeData'' (bulk_json m encoded) =
      Some (JArr (map merge_json (globalMergeData m)))"
    by (simp add: field_def bulk_json_def envelope_other field_content_json del: map_of_append)
  show ?thesis
    using g t d gl by simp
qed

theorem generateRequest_bulk_mergeData_witness:
  "\<exists>w. generateRequest example_config (\<lambda>c. None) (Bulk example_bulk) = Inr w
      \<and> field ''to'' w =
          Some (JArr [JObj [(''emailAddress'', JStr ''b@x.com'')],
                      JObj [(''emailAddress'', JStr ''c@x.com''), (''friendlyName'', JStr ''C'')]])
      \<and> field ''mergeData'' w =
          Some (JArr [JArr [JObj [(''field'', JStr ''name''), (''value'', JStr ''B'')]],
                      JArr [JObj [(''field'', JStr ''name''), (''value'', JStr ''C'')]]])
      \<and> field ''globalMergeData'' w =
          Some (JArr [JObj [(''field'', JStr ''team''), (''value'', JStr ''X'')]])"
proof -
  have v: "result (validateMessage example_config (Bulk example_bulk)) = Success"
    by (simp add: validateMessage_def validate_shape_def check_fails_def
        result_new_sendResponse invalid_from_def invalid_recipients_def malformed_def empty_text_def
        example_config_def example_bulk_def)
  have a: "those (map (attachment_json (\<lambda>c. None)) (attachments example_bulk)) \<noteq> None"
    by (simp add: example_bulk_def)
  obtain w tos mds where
    g: "generateRequest example_config (\<lambda>c. None) (Bulk example_bulk) = Inr w"
    and t: "field ''to'' w = Some (JArr tos)"
    and d: "field ''mergeData'' w = Some (JArr mds)"
    and lt: "length tos = length (to example_bulk)"
    and ld: "length mds = length (to example_bulk)"
    and al: "\<forall>i < length (to example_bulk).
              tos ! i = address_json (to example_bulk ! i)
            \<and> mds ! i = JArr (map merge_json (mergeData (to example_bulk ! i)))"
    and gl: "field ''globalMergeData'' w = Some (JArr (map merge_json (globalMergeData example_bulk)))"
    using generateRequest_bulk_mergeData [OF v a] by blast
  have n: "length (to example_bulk) = 2" by (simp add: example_bulk_def)
  have "tos = [tos ! 0, tos ! 1]" using lt n
    by (cases tos; cases "tl tos") auto
  moreover have "mds = [mds ! 0, mds ! 1]" using ld n
    by (cases mds; cases "tl mds") auto
  moreover have "tos ! 0 = JObj [(''emailAddress'', JStr ''b@x.com'')]"
    "tos ! 1 = JObj [(''emailAddress'', JStr ''c@x.com''), (''friendlyName'', JStr ''C'')]"
    "mds ! 0 = JArr [JObj [(''field'', JStr ''name''), (''value'', JStr ''B'')]]"
    "mds ! 1 = JArr [JObj [(''field'', JStr ''name''), (''value'', JStr ''C'')]]"
    using al n by (simp_all add: example_bulk_def address_json_def merge_json_def opt_def)
  ultimately have "tos = [JObj [(''emailAddress'', JStr ''b@x.com'')],
                      JObj [(''emailAddress'', JStr ''c@x.com''), (''friendlyName'', JStr ''C'')]]"
    "mds = [JArr [JObj [(''field'', JStr ''name''), (''value'', JStr ''B'')]],
                      JArr [JObj [(''field'', JStr ''name''), (''value'', JStr ''C'')]]]"
    by simp_all
  with g t d gl show ?thesis
    by (simp add: example_bulk_def merge_json_def)
qed

lemma parse_address_json:
  fixes a :: EmailAddress
  shows "parse_address (address_json a) = Some a"
  by (cases a)
     (simp add: parse_address_def address_json_def field_def as_string_def opt_def
        split: option.splits)

lemma parse_addresses_json:
  fixes xs :: "EmailAddress list"
  shows "those (map (parse_address \<circ> address_json) xs) = Some xs"
  by (induction xs) (simp_all add: parse_address_json)

lemma as_string_JStr: "as_string (map_option JStr s) = s"
  by (cases s) (simp_all add: as_string_def)

text \<open>
  Claim C8. For every valid basic message whose attachments encode, generateRequest
  produces a wire object, and reading subject, sender, recipients and the two bodies
  back from it gives the fields of the message. The factory is the one modelled from the
  spec.
\<close>

theorem generateRequest_round_trip:
  assumes "result (validateMessage cfg (Basic m)) = Success"
    and "those (map (attachment_json encode) (attachments m)) \<noteq> None"
  shows "\<exists>w. generateRequest cfg encode (Basic m) = Inr w
            \<and> parse_request w = Some (message_fields m)"
proof -
  from assms(2) obtain encoded where
    e: "those (map (attachment_json encode) (attachments m)) = Some encoded"
    by blast
  have g: "generateRequest cfg encode (Basic m) = Inr (basic_json m encoded)"
    by (rule generateRequest_basic [OF assms(1) e])
  have t: "field ''to'' (basic_json m encoded) = Some (JArr (map address_json (to m)))"
    by (simp add: field_def basic_json_def envelope_to del: map_of_append)
  have s: "field ''subject'' (basic_json m encoded) = map_option JStr (subject m)"
    by (simp add: field_def basic_json_def envelope_subject basic_rest del: map_of_append
        split: option.splits)
  have f: "field ''from'' (basic_json m encoded) = map_option address_json (from' m)"
    by (simp add: field_def basic_json_def envelope_from basic_rest del: map_of_append
        split: option.splits)
  have tb: "field ''textBody'' (basic_json m encoded) = map_option JStr (textBody m)"
    by (simp add: field_def basic_json_def envelope_other map_of_arr textBody_content_json del: map_of_append)
  have hb: "field ''htmlBody'' (basic_json m encoded) = map_option JStr (htmlBody m)"
    by (simp add: field_def basic_json_def envelope_other map_of_arr htmlBody_content_json del: map_of_append)
  have fr: "(case field ''from'' (basic_json m encoded) of None \<Rightarrow> None
             | Some j \<Rightarrow> parse_address j) = from' m"
    by (cases "from' m") (simp_all add: f parse_address_json)
  have "parse_request (basic_json m encoded) = Some (message_fields m)"
    by (simp add: parse_request_def t s tb hb fr parse_addresses_def parse_addresses_json
        as_string_JStr message_fields_def)
  with g show ?thesis by simp
qed

theorem generateRequest_round_trip_witness:
  "\<exists>w. generateRequest example_config (\<lambda>c. None) (Basic example_basic) = Inr w
      \<and> parse_request w =
          Some \<lparr>wire_subject = Some ''Hi'',
                wire_from = Some \<lparr>emailAddress = ''a@x.com'', friendlyName = None\<rparr>,
                wire_to = [\<lparr>emailAddress = ''b@x.com'', friendlyName = None\<rparr>],
                wire_textBody = Some ''body'',
                wire_htmlBody = None\<rparr>"
proof -
  have v: "result (validateMessage example_config (Basic example_basic)) = Success"
    by (simp add: validateMessage_def validate_shape_def check_fails_def
        result_new_sendResponse invalid_from_def invalid_recipients_def malformed_def empty_text_def
        example_config_def example_basic_def)
  have a: "those (map (attachment_json (\<lambda>c. None)) (attachments example_basic)) \<noteq> None"
    by (simp add: example_basic_def)
  show ?thesis
    using generateRequest_round_trip [OF v a] by (simp add: message_fields_def example_basic_def)
qed

text \<open>The spec's scenario: the wire object of the example message.\<close>

lemma generateRequest_scenario:
  "generateRequest example_config (\<lambda>c. None) (Basic example_basic) =
     Inr (JObj [(''subject'', JStr ''Hi''),
                (''from'', JObj [(''emailAddress'', JStr ''a@x.com'')]),
                (''to'', JArr [JObj [(''emailAddress'', JStr ''b@x.com'')]]),
                (''textBody'', JStr ''body'')])"
  by (simp add: generateRequest_def validateMessage_def validate_shape_def check_fails_def
      example_config_def
      example_basic_def invalid_from_def malformed_def invalid_recipients_def empty_text_def
      new_sendResponse_def attachments_of_def basic_json_def envelope_json_def content_json_def
      opt_def arr_def address_json_def)

text \<open>
  A wire object is an object, hence truthy: with this factory the client always goes on
  to post.
\<close>

lemma generateRequest_truthy:
  "generateRequest cfg encode m = Inr w \<Longrightarrow> truthy w"
  by (auto simp add: generateRequest_def Let_def basic_json_def bulk_json_def
      split: if_splits option.splits messageData.splits)

lemma factory_example:
  "factory example_config (\<lambda>c. None) (Basic example_basic) =
     Fulfilled (JObj [(''subject'', JStr ''Hi''),
                (''from'', JObj [(''emailAddress'', JStr ''a@x.com'')]),
                (''to'', JArr [JObj [(''emailAddress'', JStr ''b@x.com'')]]),
                (''textBody'', JStr ''body'')])"
  by (simp add: factory_def generateRequest_scenario)

end
